theory Spec2Isabelle
  imports Main "HOL-Library.AList"
begin

section \<open>Values exchanged with the CSI controller server\<close>

text \<open>
  The controller server of \<^verbatim>\<open>frontend/csi/controller_server.go\<close> answers every call
  with a response or with a gRPC status error built by \<^verbatim>\<open>status.Error(code, msg)\<close>.
  A dereference of a nil pointer, which Go turns into a run-time panic, is a third outcome.
\<close>

datatype codes =
    OK | Canceled | Unknown | InvalidArgument | DeadlineExceeded | NotFound | AlreadyExists
  | PermissionDenied | ResourceExhausted | FailedPrecondition | Aborted | OutOfRange
  | Unimplemented | Internal | Unavailable | DataLoss | Unauthenticated

datatype status = Status (code: codes) (message: string)

datatype 'a result = Response 'a | Failure status | Panicked

text \<open>The protocol and access mode enumerations of package \<^verbatim>\<open>config\<close>, and the
  access modes of the CSI specification (\<^verbatim>\<open>UNKNOWN\<close> stands for every value the
  \<^verbatim>\<open>switch\<close> statements send to their \<^verbatim>\<open>default\<close> branch).\<close>

datatype Protocol = File | Block | ProtocolAny

datatype AccessMode = ReadWriteOnce | ReadOnlyMany | ReadWriteMany | ModeAny


record VolumeConfig =
  Version :: string
  Name :: string
  InternalName :: string
  Size :: string
  Protocol :: Protocol
  AccessMode :: AccessMode
  StorageClass :: string
  CloneSourceVolume :: string
  CloneSourceSnapshot :: string

record VolumeExternal =
  Config :: VolumeConfig
  BackendUUID :: string

record BackendExternal =
  backend_Name :: string
  backend_Protocol :: Protocol

record SnapshotConfig =
  snap_Name :: string
  snap_VolumeName :: string

record SnapshotExternal =
  snap_Config :: SnapshotConfig
  Created :: string
  SizeBytes :: int




text \<open>A volume capability carries one of the access types block and mount (or none) and
  a pointer to its access mode, which may be nil.\<close>

datatype AccessType = NoAccessType | BlockAccess | MountAccess (FsType: string)





record DeleteVolumeRequest =
  del_VolumeId :: string


record DeleteSnapshotRequest =
  dsr_SnapshotId :: string

section \<open>The collaborators of the plugin\<close>

text \<open>
  The plugin talks to the orchestrator (interface \<^verbatim>\<open>core.Orchestrator\<close>) and to a
  helper (\<^verbatim>\<open>p.helper\<close>); neither implementation belongs to the controller server. They
  are parameters of the model: a record of functions giving, for the arguments of a call,
  the values the collaborator returns. A Go function returning \<^verbatim>\<open>(*T, error)\<close>
  becomes a function into \<open>T option \<times> 'e option\<close>, where \<open>None\<close> is nil; \<open>'e\<close>
  is the type of the collaborators' error values. The record also carries the functions
  of other packages and files that the controller server calls:
  \<^verbatim>\<open>core.IsNotFoundError\<close>, \<^verbatim>\<open>getCSIErrorForOrchestratorError\<close>, \<^verbatim>\<open>err.Error()\<close>,
  \<^verbatim>\<open>storage.ParseSnapshotID\<close>, \<^verbatim>\<open>storage.MakeSnapshotID\<close>, \<^verbatim>\<open>time.Parse\<close> of an
  RFC 3339 time (as Unix seconds) and \<^verbatim>\<open>time.Now\<close>.
\<close>

record 'e Plugin =
  orch_GetVolume :: "string \<Rightarrow> VolumeExternal option \<times> 'e option"
  orch_AddVolume :: "VolumeConfig \<Rightarrow> VolumeExternal option \<times> 'e option"
  orch_CloneVolume :: "VolumeConfig \<Rightarrow> VolumeExternal option \<times> 'e option"
  orch_DeleteVolume :: "string \<Rightarrow> 'e option"
  orch_ListBackends :: "BackendExternal list \<times> 'e option"
  orch_GetSnapshot :: "string \<Rightarrow> string \<Rightarrow> SnapshotExternal option \<times> 'e option"
  orch_ListSnapshotsByName :: "string \<Rightarrow> SnapshotExternal list \<times> 'e option"
  orch_CreateSnapshot :: "SnapshotConfig option \<Rightarrow> SnapshotExternal option \<times> 'e option"
  orch_DeleteSnapshot :: "string \<Rightarrow> string \<Rightarrow> 'e option"
  helper_GetVolumeConfig ::
    "string \<Rightarrow> int \<Rightarrow> (string \<times> string) list \<Rightarrow> Protocol \<Rightarrow> AccessMode \<Rightarrow> string
      \<Rightarrow> VolumeConfig option \<times> 'e option"
  helper_GetSnapshotConfig :: "string \<Rightarrow> string \<Rightarrow> SnapshotConfig option \<times> 'e option"
  IsNotFoundError :: "'e \<Rightarrow> bool"
  getCSIErrorForOrchestratorError :: "'e \<Rightarrow> status"
  Error_text :: "'e \<Rightarrow> string"
  ParseSnapshotID :: "string \<Rightarrow> (string \<times> string) option"
  MakeSnapshotID :: "string \<Rightarrow> string \<Rightarrow> string"
  time_Parse :: "string \<Rightarrow> int option"
  time_Now :: int

text \<open>Every call the plugin makes to the orchestrator, and every event it records with
  the helper, is appended to a log, so that a theorem can say which calls were made.\<close>

datatype call =
    GetVolume_call string
  | AddVolume_call VolumeConfig
  | CloneVolume_call VolumeConfig
  | DeleteVolume_call string
  | ListBackends_call
  | GetSnapshot_call string string
  | ListSnapshotsByName_call string
  | CreateSnapshot_call "SnapshotConfig option"
  | DeleteSnapshot_call string string
  | RecordVolumeEvent_call string string string

text \<open>The mutable state: the map \<^verbatim>\<open>opCache\<close> of the plugin (\<^verbatim>\<open>map[string]bool\<close>) and
  the log of calls.\<close>

record state =
  opCache :: "string \<rightharpoonup> bool"
  calls :: "call list"

definition invoke :: "call \<Rightarrow> state \<Rightarrow> state" where
  "invoke c st = st\<lparr>calls := calls st @ [c]\<rparr>"

section \<open>Go's \<^verbatim>\<open>strconv.ParseInt(s, 10, 64)\<close>\<close>







section \<open>The controller server\<close>





text \<open>\<^verbatim>\<open>hasBackendForProtocol\<close> asks the orchestrator for its backends (a nil and an
  empty list are both \<open>[]\<close>) and returns the answer with the state that logs the call.\<close>

definition hasBackendForProtocol :: "'e Plugin \<Rightarrow> state \<Rightarrow> Protocol \<Rightarrow> bool \<times> state" where
  "hasBackendForProtocol p st protocol =
     (let (backends, err) = orch_ListBackends p;
          st1 = invoke ListBackends_call st
      in if err \<noteq> None \<or> backends = [] then (False, st1)
         else if protocol = ProtocolAny then (True, st1)
         else (list_ex (\<lambda>b. backend_Protocol b = ProtocolAny \<or> backend_Protocol b = protocol)
                 backends, st1))"

text \<open>The test \<^verbatim>\<open>err != nil && !core.IsNotFoundError(err)\<close>: the error, when there is
  one and it is no not-found error.\<close>

definition otherThanNotFound :: "'e Plugin \<Rightarrow> 'e option \<Rightarrow> 'e option" where
  "otherThanNotFound p err =
     (case err of None \<Rightarrow> None | Some e \<Rightarrow> if IsNotFoundError p e then None else Some e)"



subsection \<open>\<^verbatim>\<open>CreateVolume\<close>\<close>







subsection \<open>\<^verbatim>\<open>DeleteVolume\<close>\<close>

text \<open>The responses of the delete calls are empty messages, here \<open>()\<close>.\<close>

definition DeleteVolume :: "'e Plugin \<Rightarrow> state \<Rightarrow> DeleteVolumeRequest \<Rightarrow> unit result \<times> state" where
  "DeleteVolume p st req =
     (if del_VolumeId req = []
      then (Failure (Status InvalidArgument ''no volume ID provided''), st)
      else
        let err = orch_DeleteVolume p (del_VolumeId req);
            st1 = invoke (DeleteVolume_call (del_VolumeId req)) st
        in (case otherThanNotFound p err of
              Some e \<Rightarrow> (Failure (getCSIErrorForOrchestratorError p e), st1)
            | None \<Rightarrow> (Response (), st1)))"

subsection \<open>\<^verbatim>\<open>CreateSnapshot\<close> and \<^verbatim>\<open>DeleteSnapshot\<close>\<close>


definition DeleteSnapshot ::
  "'e Plugin \<Rightarrow> state \<Rightarrow> DeleteSnapshotRequest \<Rightarrow> unit result \<times> state" where
  "DeleteSnapshot p st req =
     (let snapshotID = dsr_SnapshotId req
      in if snapshotID = []
         then (Failure (Status InvalidArgument ''no snapshot ID provided''), st)
         else (case ParseSnapshotID p snapshotID of
                 None \<Rightarrow> (Response (), st)
               | Some (volumeName, snapshotName) \<Rightarrow>
                   (let err = orch_DeleteSnapshot p volumeName snapshotName;
                        st1 = invoke (DeleteSnapshot_call volumeName snapshotName) st
                    in (case otherThanNotFound p err of
                          Some e \<Rightarrow> (Failure (getCSIErrorForOrchestratorError p e), st1)
                        | None \<Rightarrow> (Response (), st1)))))"

section \<open>Example collaborators\<close>

text \<open>A concrete orchestrator and helper, on which the theorems below are instantiated:
  one volume \<^verbatim>\<open>v1\<close> of 1 GiB with one snapshot \<^verbatim>\<open>s1\<close>; the list of backends is a
  parameter.\<close>

datatype example_error = NotFoundError string | OtherError string

definition example_volume :: VolumeExternal where
  "example_volume =
     \<lparr>Config = \<lparr>Version = ''1'', Name = ''v1'', InternalName = ''trident_v1'',
                 Size = ''1073741824'', Protocol = File, AccessMode = ReadWriteOnce,
                 StorageClass = ''gold'', CloneSourceVolume = [], CloneSourceSnapshot = []\<rparr>,
      BackendUUID = ''b1''\<rparr>"

definition example_snapshot :: SnapshotExternal where
  "example_snapshot =
     \<lparr>snap_Config = \<lparr>snap_Name = ''s1'', snap_VolumeName = ''v1''\<rparr>,
      Created = ''2019-04-01T00:00:00Z'', SizeBytes = 1024\<rparr>"

definition example_plugin :: "BackendExternal list \<Rightarrow> example_error Plugin" where
  "example_plugin backends =
     \<lparr>orch_GetVolume = (\<lambda>n. if n = ''v1'' then (Some example_volume, None)
                            else (None, Some (NotFoundError n))),
      orch_AddVolume = (\<lambda>c. (Some \<lparr>Config = c, BackendUUID = ''b1''\<rparr>, None)),
      orch_CloneVolume = (\<lambda>c. (Some \<lparr>Config = c, BackendUUID = ''b1''\<rparr>, None)),
      orch_DeleteVolume = (\<lambda>n. if n = ''v1'' then None else Some (NotFoundError n)),
      orch_ListBackends = (backends, None),
      orch_GetSnapshot = (\<lambda>v s. if v = ''v1'' \<and> s = ''s1'' then (Some example_snapshot, None)
                                else (None, Some (NotFoundError s))),
      orch_ListSnapshotsByName = (\<lambda>s. (if s = ''s1'' then [example_snapshot] else [], None)),
      orch_CreateSnapshot = (\<lambda>c. case c of
          None \<Rightarrow> (None, Some (OtherError ''no snapshot config''))
        | Some c \<Rightarrow> (Some \<lparr>snap_Config = c, Created = ''2019-04-01T00:00:00Z'',
                              SizeBytes = 0\<rparr>, None)),
      orch_DeleteSnapshot = (\<lambda>v s. if v = ''v1'' \<and> s = ''s1'' then None
                                   else Some (NotFoundError s)),
      helper_GetVolumeConfig = (\<lambda>name sizeBytes params protocol accessMode fsType.
         (Some \<lparr>Version = ''1'', Name = name, InternalName = name, Size = [],
                 Protocol = protocol, AccessMode = accessMode, StorageClass = [],
                 CloneSourceVolume = [], CloneSourceSnapshot = []\<rparr>, None)),
      helper_GetSnapshotConfig = (\<lambda>v s. (Some \<lparr>snap_Name = s, snap_VolumeName = v\<rparr>, None)),
      IsNotFoundError = (\<lambda>e. case e of NotFoundError _ \<Rightarrow> True | OtherError _ \<Rightarrow> False),
      getCSIErrorForOrchestratorError = (\<lambda>e. case e of
          NotFoundError m \<Rightarrow> Status NotFound m | OtherError m \<Rightarrow> Status Unknown m),
      Error_text = (\<lambda>e. case e of NotFoundError m \<Rightarrow> m | OtherError m \<Rightarrow> m),
      ParseSnapshotID = (\<lambda>s. if s = ''v1/s1'' then Some (''v1'', ''s1'') else None),
      MakeSnapshotID = (\<lambda>v s. v @ ''/'' @ s),
      time_Parse = (\<lambda>s. if s = ''2019-04-01T00:00:00Z'' then Some 1554076800 else None),
      time_Now = 1554076800\<rparr>"


section \<open>Registration of storage classes by the Kubernetes helper\<close>








section \<open>The persisted store and the transaction log\<close>

text \<open>
  Modelled from the spec: the client of the persisted store
  (\<^verbatim>\<open>persistent_store/etcdv2.go\<close>) is not among the sources, only its tests
  (\<^verbatim>\<open>etcdv2_test.go\<close>) are. Section 6 of the specification asks for a key-not-found
  condition that is distinguishable from connectivity and transport errors; the tests
  recognise the two with \<^verbatim>\<open>MatchKeyNotFoundErr\<close> and \<^verbatim>\<open>MatchUnavailableClusterErr\<close>.
\<close>

datatype store_error = KeyNotFoundErr string | UnavailableClusterErr

text \<open>Modelled from the spec: the predicate of the tests that recognises the
  key-not-found condition.\<close>

definition MatchKeyNotFoundErr :: "store_error \<Rightarrow> bool" where
  "MatchKeyNotFoundErr e = (case e of KeyNotFoundErr _ \<Rightarrow> True | UnavailableClusterErr \<Rightarrow> False)"

text \<open>Modelled from the spec: the predicate of the tests that recognises a connectivity
  error.\<close>

definition MatchUnavailableClusterErr :: "store_error \<Rightarrow> bool" where
  "MatchUnavailableClusterErr e =
     (case e of KeyNotFoundErr _ \<Rightarrow> False | UnavailableClusterErr \<Rightarrow> True)"

text \<open>Modelled from the spec: the store holds values under keys and may be unreachable;
  its contents are a list of key and value pairs in the order the keys were first
  written.\<close>

record 'v store =
  available :: bool
  entries :: "(string \<times> 'v) list"

text \<open>Modelled from the spec: \<^verbatim>\<open>Read(key)\<close> of section 6.\<close>

definition Read :: "string \<Rightarrow> 'v store \<Rightarrow> store_error + 'v" where
  "Read key s =
     (if \<not> available s then Inl UnavailableClusterErr
      else case map_of (entries s) key of
        None \<Rightarrow> Inl (KeyNotFoundErr key)
      | Some v \<Rightarrow> Inr v)"

text \<open>Modelled from the spec: \<^verbatim>\<open>Update(key,val)\<close> of section 6, which ``fails distinctly
  if key absent''. The result is the error, if any, and the store after the call.\<close>

definition Update :: "string \<Rightarrow> 'v \<Rightarrow> 'v store \<Rightarrow> store_error option \<times> 'v store" where
  "Update key val s =
     (if \<not> available s then (Some UnavailableClusterErr, s)
      else case map_of (entries s) key of
        None \<Rightarrow> (Some (KeyNotFoundErr key), s)
      | Some _ \<Rightarrow> (None, s\<lparr>entries := AList.update key val (entries s)\<rparr>))"

text \<open>Modelled from the spec: \<^verbatim>\<open>Delete(key)\<close> of section 6; the tests expect the
  key-not-found error for an absent key.\<close>

definition Delete :: "string \<Rightarrow> 'v store \<Rightarrow> store_error option \<times> 'v store" where
  "Delete key s =
     (if \<not> available s then (Some UnavailableClusterErr, s)
      else case map_of (entries s) key of
        None \<Rightarrow> (Some (KeyNotFoundErr key), s)
      | Some _ \<Rightarrow> (None, s\<lparr>entries := AList.delete key (entries s)\<rparr>))"

text \<open>Modelled from the spec: a volume transaction of section 3, an operation and a
  volume config, keyed by the name of the resource.\<close>

datatype VolumeOperation =
  AddVolume_op | DeleteVolume_op | ResizeVolume_op | AddSnapshot_op | DeleteSnapshot_op

record VolumeTransaction =
  txn_Config :: VolumeConfig
  txn_Op :: VolumeOperation

text \<open>Modelled from the spec: \<^verbatim>\<open>Begin\<close> of section 4.3 (\<^verbatim>\<open>AddVolumeTransaction\<close> in the
  tests), which persists the record under the name, ``replacing any existing one for that
  name''.\<close>

definition AddVolumeTransaction ::
  "VolumeTransaction \<Rightarrow> VolumeTransaction store \<Rightarrow> store_error option \<times> VolumeTransaction store" where
  "AddVolumeTransaction volTxn s =
     (if \<not> available s then (Some UnavailableClusterErr, s)
      else (None, s\<lparr>entries := AList.update (Name (txn_Config volTxn)) volTxn (entries s)\<rparr>))"

text \<open>Modelled from the spec: \<^verbatim>\<open>Commit\<close> of section 4.3 (\<^verbatim>\<open>DeleteVolumeTransaction\<close> in
  the tests), which deletes the record.\<close>

definition DeleteVolumeTransaction ::
  "VolumeTransaction \<Rightarrow> VolumeTransaction store \<Rightarrow> store_error option \<times> VolumeTransaction store" where
  "DeleteVolumeTransaction volTxn s = Delete (Name (txn_Config volTxn)) s"

text \<open>Modelled from the spec: \<^verbatim>\<open>List\<close> of section 4.3 (\<^verbatim>\<open>GetVolumeTransactions\<close> in the
  tests), which enumerates the pending records.\<close>

definition GetVolumeTransactions ::
  "VolumeTransaction store \<Rightarrow> store_error + VolumeTransaction list" where
  "GetVolumeTransactions s =
     (if \<not> available s then Inl UnavailableClusterErr else Inr (map snd (entries s)))"

text \<open>Modelled from the spec: a well-formed log holds each key once, and each record under
  the name of its config. The empty log is well-formed, and the operations of the log keep
  it so.\<close>

definition txn_log_ok :: "VolumeTransaction store \<Rightarrow> bool" where
  "txn_log_ok s =
     (distinct (map fst (entries s))
      \<and> list_all (\<lambda>(k, t). k = Name (txn_Config t)) (entries s))"

text \<open>The two transactions of \<^verbatim>\<open>TestEtcdv2DuplicateVolumeTransaction\<close>.\<close>

definition example_txn :: "string \<Rightarrow> VolumeTransaction" where
  "example_txn class =
     \<lparr>txn_Config = \<lparr>Version = ''1'', Name = ''testVol'', InternalName = [],
                     Size = ''1 GB'', Protocol = File, AccessMode = ModeAny,
                     StorageClass = class, CloneSourceVolume = [], CloneSourceSnapshot = []\<rparr>,
      txn_Op = AddVolume_op\<rparr>"

section \<open>The storage class matcher\<close>

text \<open>
  Modelled from the spec: the matcher (packages \<^verbatim>\<open>storage_class\<close> and
  \<^verbatim>\<open>storage_attribute\<close>) is not among the sources. Section 4.2 of the specification
  gives its steps, and the design notes the tagged variants of attribute values and
  requests: string, integer range, boolean and list.
\<close>

datatype AttributeValue =
    StringValue string
  | IntRangeValue int int
  | BoolValue bool
  | ListValue "string list"

datatype AttributeRequest =
    StringRequest string
  | IntRequest int
  | BoolRequest bool
  | ListRequest string

text \<open>Modelled from the spec: ``type-aware: string equality, numeric/range containment,
  boolean equality, list membership''; a request of one variant is not satisfied by a
  value of another.\<close>

fun satisfied :: "AttributeRequest \<Rightarrow> AttributeValue \<Rightarrow> bool" where
  "satisfied (StringRequest r) (StringValue v) = (r = v)"
| "satisfied (IntRequest n) (IntRangeValue lo hi) = (lo \<le> n \<and> n \<le> hi)"
| "satisfied (BoolRequest b) (BoolValue v) = (b = v)"
| "satisfied (ListRequest x) (ListValue xs) = (x \<in> set xs)"
| "satisfied _ _ = False"

text \<open>Modelled from the spec: the fixed matrix of section 4.2, ``block protocol \<open>\<Rightarrow>\<close>
  {single-writer, read-only-many}; file protocol \<open>\<Rightarrow>\<close> {single-writer, read-only-many,
  multi-writer}''.\<close>

datatype wire_protocol = block_protocol | file_protocol

datatype access = single_writer | read_only_many | multi_writer

fun compatible :: "wire_protocol \<Rightarrow> access \<Rightarrow> bool" where
  "compatible block_protocol multi_writer = False"
| "compatible _ _ = True"

text \<open>Modelled from the spec: a pool of section 3 with the protocol of its owning backend,
  and the config of a storage class; an explicit pool list maps a backend to pool names.\<close>

record Pool =
  pool_Backend :: string
  pool_Name :: string
  pool_Protocol :: wire_protocol
  pool_Attributes :: "(string \<times> AttributeValue) list"

record StorageClassConfig =
  class_Name :: string
  class_Attributes :: "(string \<times> AttributeRequest) list"
  class_Pools :: "(string \<times> string list) list"
  class_AdditionalPools :: "(string \<times> string list) list"
  class_ExcludePools :: "(string \<times> string list) list"

text \<open>Modelled from the spec: the \<open>(backend, pool)\<close> pairs an explicit pool list names.\<close>

definition listed :: "(string \<times> string list) list \<Rightarrow> (string \<times> string) list" where
  "listed m = concat (map (\<lambda>(backend, pools). map (Pair backend) pools) m)"

text \<open>Modelled from the spec: step 1 of section 4.2, the pools ``whose every
  \<^verbatim>\<open>AttributeRequest\<close> in \<^verbatim>\<open>class.Attributes\<close> is satisfied by the Pool's
  \<^verbatim>\<open>AttributeValue\<close> and whose owning Backend's protocol is compatible with the requested
  access mode''.\<close>

definition attributeMatched :: "StorageClassConfig \<Rightarrow> access \<Rightarrow> Pool list \<Rightarrow> (string \<times> string) list" where
  "attributeMatched class mode universe =
     map (\<lambda>q. (pool_Backend q, pool_Name q))
       (filter (\<lambda>q. list_all (\<lambda>(key, request).
                        case map_of (pool_Attributes q) key of
                          None \<Rightarrow> False
                        | Some v \<Rightarrow> satisfied request v) (class_Attributes class)
                    \<and> compatible (pool_Protocol q) mode) universe)"

text \<open>Modelled from the spec: steps 1 to 4 of section 4.2, in their order: the base set;
  intersected with the explicit \<^verbatim>\<open>storagePools\<close> when that list is non-empty; every pair
  of \<^verbatim>\<open>AdditionalPools\<close> united in unconditionally; every pair of \<^verbatim>\<open>ExcludePools\<close>
  subtracted.\<close>

definition Candidates :: "StorageClassConfig \<Rightarrow> access \<Rightarrow> Pool list \<Rightarrow> (string \<times> string) list" where
  "Candidates class mode universe =
     (let base = attributeMatched class mode universe;
          restricted = (if class_Pools class \<noteq> []
                        then filter (\<lambda>x. x \<in> set (listed (class_Pools class))) base
                        else base);
          extended = restricted @ listed (class_AdditionalPools class)
      in filter (\<lambda>x. x \<notin> set (listed (class_ExcludePools class))) extended)"

text \<open>Modelled from the spec: step 5 of section 4.2, ``an empty resulting set is a
  distinct failure''.\<close>

datatype match_error = NoSuitableBackendError

definition Match ::
  "StorageClassConfig \<Rightarrow> access \<Rightarrow> Pool list \<Rightarrow> match_error + (string \<times> string) list" where
  "Match class mode universe =
     (let candidates = Candidates class mode universe
      in if candidates = [] then Inl NoSuitableBackendError else Inr candidates)"



section \<open>Properties\<close>





lemma calls_invoke: "calls (invoke c st) = calls st @ [c]"
  by (simp add: invoke_def)


lemma snd_hasBackendForProtocol:
  "snd (hasBackendForProtocol p st protocol) = invoke ListBackends_call st"
  by (simp add: hasBackendForProtocol_def Let_def split: prod.splits)







text \<open>
  Claim C4. For a delete request that names a volume, when the orchestrator's
  \<^verbatim>\<open>DeleteVolume\<close> reports a not-found error, the call absorbs it and answers with success.
\<close>

theorem DeleteVolume_not_found:
  assumes "del_VolumeId req \<noteq> []"
    and "orch_DeleteVolume p (del_VolumeId req) = Some e"
    and "IsNotFoundError p e"
  shows "DeleteVolume p st req = (Response (), st\<lparr>calls := calls st @ [DeleteVolume_call (del_VolumeId req)]\<rparr>)"
  using assms by (simp add: DeleteVolume_def otherThanNotFound_def invoke_def)

text \<open>
  Claim C9. A snapshot-delete request whose (non-empty) snapshot ID \<^verbatim>\<open>ParseSnapshotID\<close>
  cannot parse answers with success, and the state is unchanged: no delete is attempted.
\<close>

theorem DeleteSnapshot_invalid_id:
  assumes "dsr_SnapshotId req \<noteq> []"
    and "ParseSnapshotID p (dsr_SnapshotId req) = None"
  shows "DeleteSnapshot p st req = (Response (), st)"
  using assms by (simp add: DeleteSnapshot_def)












theorem DeleteVolume_not_found_witness:
  "DeleteVolume (example_plugin []) \<lparr>opCache = Map.empty, calls = []\<rparr>
     \<lparr>del_VolumeId = ''missing''\<rparr>
   = (Response (), \<lparr>opCache = Map.empty, calls = [DeleteVolume_call ''missing'']\<rparr>)"
  using DeleteVolume_not_found [of "\<lparr>del_VolumeId = ''missing''\<rparr>" "example_plugin []"
      "NotFoundError ''missing''" "\<lparr>opCache = Map.empty, calls = []\<rparr>"]
  by (simp add: example_plugin_def)

theorem DeleteSnapshot_invalid_id_witness:
  "DeleteSnapshot (example_plugin []) \<lparr>opCache = Map.empty, calls = []\<rparr>
     \<lparr>dsr_SnapshotId = ''not-an-id''\<rparr>
   = (Response (), \<lparr>opCache = Map.empty, calls = []\<rparr>)"
  using DeleteSnapshot_invalid_id [of "\<lparr>dsr_SnapshotId = ''not-an-id''\<rparr>" "example_plugin []"
      "\<lparr>opCache = Map.empty, calls = []\<rparr>"]
  by (simp add: example_plugin_def)







text \<open>
  Claim C8. On a reachable store and for a key it does not hold, \<^verbatim>\<open>Read\<close>, \<^verbatim>\<open>Update\<close>
  and \<^verbatim>\<open>Delete\<close> fail with the key-not-found error, which \<^verbatim>\<open>MatchKeyNotFoundErr\<close>
  recognises and \<^verbatim>\<open>MatchUnavailableClusterErr\<close> does not; \<^verbatim>\<open>Update\<close> and \<^verbatim>\<open>Delete\<close>
  leave the store as it was, so the update does not create the key.
\<close>

theorem absent_key_not_found:
  assumes "available s" and "key \<notin> fst ` set (entries s)"
  shows "Read key s = Inl (KeyNotFoundErr key)
       \<and> Update key val s = (Some (KeyNotFoundErr key), s)
       \<and> Delete key s = (Some (KeyNotFoundErr key), s)
       \<and> MatchKeyNotFoundErr (KeyNotFoundErr key)
       \<and> \<not> MatchUnavailableClusterErr (KeyNotFoundErr key)
       \<and> key \<notin> fst ` set (entries (snd (Update key val s)))"
proof -
  from assms(2) have m: "map_of (entries s) key = None"
    by (simp add: map_of_eq_None_iff)
  show ?thesis
    using assms m
    by (simp add: Read_def Update_def Delete_def MatchKeyNotFoundErr_def
        MatchUnavailableClusterErr_def)
qed

theorem absent_key_not_found_witness:
  "Read ''/backend/nonexistent'' \<lparr>available = True, entries = [(''key1'', ''val1'')]\<rparr>
     = Inl (KeyNotFoundErr ''/backend/nonexistent'')
   \<and> Update ''/backend/nonexistent'' '''' \<lparr>available = True, entries = [(''key1'', ''val1'')]\<rparr>
     = (Some (KeyNotFoundErr ''/backend/nonexistent''),
        \<lparr>available = True, entries = [(''key1'', ''val1'')]\<rparr>)
   \<and> Delete ''/backend/nonexistent'' \<lparr>available = True, entries = [(''key1'', ''val1'')]\<rparr>
     = (Some (KeyNotFoundErr ''/backend/nonexistent''),
        \<lparr>available = True, entries = [(''key1'', ''val1'')]\<rparr>)"
  using absent_key_not_found [of "\<lparr>available = True, entries = [(''key1'', ''val1'')]\<rparr>"
      "''/backend/nonexistent''" "''''"]
  by simp

lemma filter_update_name:
  assumes n: "Name (txn_Config t) = n"
  shows "distinct (map fst es) \<Longrightarrow> list_all (\<lambda>(k, t). k = Name (txn_Config t)) es \<Longrightarrow>
         filter (\<lambda>t. Name (txn_Config t) = n) (map snd (AList.update n t es)) = [t]"
proof (induction es)
  case Nil
  then show ?case using n by simp
next
  case (Cons kt es)
  obtain k t' where kt: "kt = (k, t')" by (cases kt) auto
  from Cons.prems have k: "k = Name (txn_Config t')" and d: "distinct (map fst es)"
    and nk: "k \<notin> fst ` set es" and a: "list_all (\<lambda>(k, t). k = Name (txn_Config t)) es"
    by (auto simp: kt)
  show ?case
  proof (cases "k = n")
    case True
    have names: "(a, b) \<in> set es \<Longrightarrow> a = Name (txn_Config b)" for a b
      using a by (auto simp: list_all_iff)
    have "Name (txn_Config b) \<noteq> n" if "(a, b) \<in> set es" for a b
      using names [OF that] that nk True by force
    then have "filter (\<lambda>t. Name (txn_Config t) = n) (map snd es) = []"
      by (fastforce simp: filter_empty_conv)
    with True n show ?thesis by (simp add: kt)
  next
    case False
    with Cons.IH [OF d a] k show ?thesis by (simp add: kt)
  qed
qed

lemma set_AList_update: "set (AList.update k v al) \<subseteq> insert (k, v) (set al)"
  by (induct al) auto

lemma txn_log_ok_update:
  "txn_log_ok s \<Longrightarrow>
   txn_log_ok (s\<lparr>entries := AList.update (Name (txn_Config t)) t (entries s)\<rparr>)"
proof -
  assume ok: "txn_log_ok s"
  let ?n = "Name (txn_Config t)"
  have sub: "set (AList.update ?n t (entries s)) \<subseteq> insert (?n, t) (set (entries s))"
    by (rule set_AList_update)
  have "list_all (\<lambda>(k, t). k = Name (txn_Config t)) (AList.update ?n t (entries s))"
    using ok sub by (auto simp: txn_log_ok_def list_all_iff)
  moreover have "distinct (map fst (AList.update ?n t (entries s)))"
    using ok by (simp add: txn_log_ok_def distinct_update)
  ultimately show ?thesis by (simp add: txn_log_ok_def)
qed

text \<open>
  Claim C2. On a reachable, well-formed transaction log, after a transaction has been
  added for a name and then a second one for the same name, the pending transactions of
  that name are exactly one, the second (with its config); the first is overwritten. The
  log stays well-formed, that is, it holds at most one transaction per name.
\<close>

theorem duplicate_transaction_overwrites:
  assumes "available s" and "txn_log_ok s"
    and "Name (txn_Config first) = Name (txn_Config second)"
  shows "GetVolumeTransactions (snd (AddVolumeTransaction second (snd (AddVolumeTransaction first s))))
           = Inr (map snd (AList.update (Name (txn_Config second)) second (entries s)))
       \<and> filter (\<lambda>t. Name (txn_Config t) = Name (txn_Config second))
            (map snd (AList.update (Name (txn_Config second)) second (entries s))) = [second]
       \<and> txn_log_ok (snd (AddVolumeTransaction second (snd (AddVolumeTransaction first s))))"
proof -
  let ?n = "Name (txn_Config second)"
  have e: "snd (AddVolumeTransaction second (snd (AddVolumeTransaction first s)))
             = s\<lparr>entries := AList.update ?n second (entries s)\<rparr>"
    using assms(1,3) by (simp add: AddVolumeTransaction_def)
  have f: "filter (\<lambda>t. Name (txn_Config t) = ?n)
            (map snd (AList.update ?n second (entries s))) = [second]"
    using assms(2) by (intro filter_update_name) (simp_all add: txn_log_ok_def)
  show ?thesis
    unfolding e using assms(1) f txn_log_ok_update [OF assms(2), of second]
    by (simp add: GetVolumeTransactions_def)
qed

theorem duplicate_transaction_overwrites_witness:
  "GetVolumeTransactions
     (snd (AddVolumeTransaction (example_txn ''silver'')
        (snd (AddVolumeTransaction (example_txn ''gold'') \<lparr>available = True, entries = []\<rparr>))))
   = Inr [example_txn ''silver'']"
proof -
  have ok: "txn_log_ok \<lparr>available = True, entries = []\<rparr>" by (simp add: txn_log_ok_def)
  have n: "Name (txn_Config (example_txn ''gold'')) = Name (txn_Config (example_txn ''silver''))"
    by (simp add: example_txn_def)
  from duplicate_transaction_overwrites [OF _ ok n] show ?thesis
    by simp
qed




end
